theory Spec2Isabelle
  imports Main "HOL-Library.Word"
begin

section \<open>Machine integers, byte strings and decimal text\<close>

text \<open>
  Go's \<open>uint64\<close> and \<open>int64\<close> are 64-bit words: \<open>+\<close>, \<open>-\<close> and \<open>*\<close> wrap around,
  \<open>unat\<close> reads a word as unsigned and \<open>sint\<close> as two's complement. A \<open>*big.Int\<close> block
  number is a natural number. A \<open>[]byte\<close> is a list of 8-bit words; a Go \<open>string\<close> is a
  list of characters (bytes).
\<close>

type_synonym u64 = "64 word"
type_synonym bytes = "8 word list"

text \<open>\<open>(*big.Int).String\<close>: the decimal digits of a block number.\<close>

definition digitChar :: "nat \<Rightarrow> char" where
  "digitChar d = ''0123456789'' ! d"

function decimal :: "nat \<Rightarrow> string" where
  "decimal n = (if n < 10 then [digitChar n] else decimal (n div 10) @ [digitChar (n mod 10)])"
  by pat_completeness auto
termination
  by (relation "measure (\<lambda>n. n)") auto

declare decimal.simps [simp del]

text \<open>
  \<open>strconv.ParseUint(s, 10, 64)\<close>: a non-empty string of decimal digits whose value fits
  in 64 bits; anything else is an error (\<open>None\<close>).
\<close>

definition digitVal :: "char \<Rightarrow> nat option" where
  "digitVal c =
     (let v = (of_char c :: nat) in if 48 \<le> v \<and> v \<le> 57 then Some (v - 48) else None)"

fun parseDigits :: "nat \<Rightarrow> string \<Rightarrow> nat option" where
  "parseDigits acc [] = Some acc"
| "parseDigits acc (c # cs) =
     (case digitVal c of None \<Rightarrow> None | Some d \<Rightarrow> parseDigits (acc * 10 + d) cs)"

definition ParseUint :: "string \<Rightarrow> u64 option" where
  "ParseUint s =
     (if s = [] then None
      else case parseDigits 0 s of
             None \<Rightarrow> None
           | Some n \<Rightarrow> if n < 2 ^ 64 then Some (of_nat n) else None)"


text \<open>\<open>hex.EncodeToString\<close>: two lower-case hexadecimal digits per byte.\<close>

definition hexDigit :: "nat \<Rightarrow> char" where
  "hexDigit d = ''0123456789abcdef'' ! d"

fun EncodeToString :: "bytes \<Rightarrow> string" where
  "EncodeToString [] = []"
| "EncodeToString (b # bs) =
     hexDigit (unat b div 16) # hexDigit (unat b mod 16) # EncodeToString bs"

section \<open>The syncer (bridge/pier/syncer.go)\<close>

subsection \<open>Data\<close>

text \<open>The fields of \<open>types.Header\<close> that \<open>processHeader\<close> reads.\<close>

record Header =
  HeaderNumber :: nat
  HeaderTime :: u64

record LightHeader =
  Number :: nat
  Time :: u64

text \<open>The fields of \<open>types.Log\<close> that the dispatch loop and the handlers read.\<close>

record Log =
  Topics :: "bytes list"
  TxHash :: bytes
  Index :: u64

text \<open>An ABI is its event table: the events by name, each with its id.\<close>

type_synonym ABI = "(string \<times> bytes) list"

text \<open>
  Modelled from the spec: \<open>helper.EventByID\<close>, which is declared elsewhere in the
  repository, finds the event of the ABI whose event table contains the selector, or
  nothing.
\<close>

definition EventByID :: "ABI \<Rightarrow> bytes \<Rightarrow> string option" where
  "EventByID abiObject sigdata =
     map_option fst (find (\<lambda>ev. snd ev = sigdata) abiObject)"

text \<open>
  The messages handed to \<open>queueConnector.BroadcastToHeimdall\<close>, with the arguments of their
  constructors in the order the handlers pass them.
\<close>

datatype Msg =
    MsgCheckpointAck bytes u64 bytes u64
  | MsgValidatorJoin bytes u64 bytes bytes u64
  | MsgValidatorExit bytes u64 bytes u64
  | MsgStakeUpdate bytes u64 bytes u64
  | MsgSignerUpdate bytes u64 bytes bytes u64
  | MsgEventRecord bytes bytes u64 u64 string
  | MsgTopup bytes u64 bytes u64

datatype rpc_error = RpcError

text \<open>
  What one run of \<open>processHeader\<close> reads from outside the syncer: the clock, the
  configuration, the signing identity, the faults of the key/value store, the main-chain
  log query, the ABI decoder and the check \<open>isEventSender\<close>. \<open>UnpackLog\<close> is given per
  event kind, as the value the handler reads from the decoded event (\<open>None\<close> is an unpack
  error, which is only logged). \<open>isEventSender\<close>, \<open>UnpackLog\<close> and the getters of the
  identity are declared elsewhere in the repository.
\<close>

record syncer_env =
  currentTime :: u64
  txConfirmationTime :: u64
  hasFails :: bool
  getFails :: bool
  putFails :: bool
  FilterLogs :: "nat \<Rightarrow> nat \<Rightarrow> rpc_error + Log list"
  abis :: "ABI list"
  unpackNewHeaderBlock :: "ABI \<Rightarrow> string \<Rightarrow> Log \<Rightarrow> nat option"
  unpackStaked :: "ABI \<Rightarrow> string \<Rightarrow> Log \<Rightarrow> nat option"
  unpackUnstakeInit :: "ABI \<Rightarrow> string \<Rightarrow> Log \<Rightarrow> nat option"
  unpackStakeUpdate :: "ABI \<Rightarrow> string \<Rightarrow> Log \<Rightarrow> nat option"
  unpackSignerChange :: "ABI \<Rightarrow> string \<Rightarrow> Log \<Rightarrow> (nat \<times> bytes) option"
  unpackStateSynced :: "ABI \<Rightarrow> string \<Rightarrow> Log \<Rightarrow> nat option"
  unpackTopUpFee :: "ABI \<Rightarrow> string \<Rightarrow> Log \<Rightarrow> nat option"
  GetAddress :: bytes
  GetFromAddress :: bytes
  GetPubKey :: bytes
  isEventSender :: "u64 \<Rightarrow> bool"
  BorChainID :: string

text \<open>
  The state \<open>processHeader\<close> changes: the in-memory header queue, the key/value store,
  the messages handed to the broadcast queue (oldest first) and the log queries sent to
  the main chain (oldest first), each query as \<open>(FromBlock, ToBlock)\<close>.
\<close>

record syncer_state =
  headerQueue :: "LightHeader list"
  storage :: "string \<rightharpoonup> string"
  broadcast :: "Msg list"
  queries :: "(nat \<times> nat) list"

text \<open>A run either returns or panics; both leave a state behind.\<close>

datatype 'a exec = Returns 'a | Panics 'a

fun final :: "'a exec \<Rightarrow> 'a" where
  "final (Returns s) = s"
| "final (Panics s) = s"

definition lastBlockKey :: string where
  "lastBlockKey = ''last-block''"

subsection \<open>The confirmation loop\<close>

text \<open>
  The loop of \<open>processHeader\<close> that pops headers from the front of the queue while
  \<open>h.Time + txConfirmationTime > currentTime\<close> does not hold (a \<open>uint64\<close> sum). The pair
  carried along is \<open>(start, end)\<close>; \<open>None\<close> is \<open>start == nil\<close>.
\<close>

fun confirmLoop ::
  "u64 \<Rightarrow> u64 \<Rightarrow> LightHeader list \<Rightarrow> (nat \<times> nat) option
    \<Rightarrow> LightHeader list \<times> (nat \<times> nat) option" where
  "confirmLoop conf now [] r = ([], r)"
| "confirmLoop conf now (h # q) r =
     (if Time h + conf > now then (h # q, r)
      else confirmLoop conf now q
             (case r of None \<Rightarrow> Some (Number h, Number h)
                      | Some (start, _) \<Rightarrow> Some (start, Number h)))"

subsection \<open>Event handlers\<close>

definition BroadcastToHeimdall :: "Msg \<Rightarrow> syncer_state \<Rightarrow> syncer_state" where
  "BroadcastToHeimdall msg s = s\<lparr>broadcast := broadcast s @ [msg]\<rparr>"

definition processCheckpointEvent ::
  "syncer_env \<Rightarrow> string \<Rightarrow> ABI \<Rightarrow> Log \<Rightarrow> syncer_state \<Rightarrow> syncer_state" where
  "processCheckpointEvent env eventName abiObject vLog s =
     (case unpackNewHeaderBlock env abiObject eventName vLog of
        None \<Rightarrow> s
      | Some headerBlockId \<Rightarrow>
          BroadcastToHeimdall
            (MsgCheckpointAck (GetFromAddress env) (of_nat headerBlockId) (TxHash vLog) (Index vLog)) s)"

definition processStakedEvent ::
  "syncer_env \<Rightarrow> string \<Rightarrow> ABI \<Rightarrow> Log \<Rightarrow> syncer_state \<Rightarrow> syncer_state" where
  "processStakedEvent env eventName abiObject vLog s =
     (case unpackStaked env abiObject eventName vLog of
        None \<Rightarrow> s
      | Some validatorId \<Rightarrow>
          if isEventSender env (of_nat validatorId)
          then BroadcastToHeimdall
                 (MsgValidatorJoin (GetAddress env) (of_nat validatorId) (GetPubKey env)
                    (TxHash vLog) (Index vLog)) s
          else s)"

definition processUnstakeInitEvent ::
  "syncer_env \<Rightarrow> string \<Rightarrow> ABI \<Rightarrow> Log \<Rightarrow> syncer_state \<Rightarrow> syncer_state" where
  "processUnstakeInitEvent env eventName abiObject vLog s =
     (case unpackUnstakeInit env abiObject eventName vLog of
        None \<Rightarrow> s
      | Some validatorId \<Rightarrow>
          if isEventSender env (of_nat validatorId)
          then BroadcastToHeimdall
                 (MsgValidatorExit (GetAddress env) (of_nat validatorId) (TxHash vLog) (Index vLog)) s
          else s)"

definition processStakeUpdateEvent ::
  "syncer_env \<Rightarrow> string \<Rightarrow> ABI \<Rightarrow> Log \<Rightarrow> syncer_state \<Rightarrow> syncer_state" where
  "processStakeUpdateEvent env eventName abiObject vLog s =
     (case unpackStakeUpdate env abiObject eventName vLog of
        None \<Rightarrow> s
      | Some validatorId \<Rightarrow>
          if isEventSender env (of_nat validatorId)
          then BroadcastToHeimdall
                 (MsgStakeUpdate (GetAddress env) (of_nat validatorId) (TxHash vLog) (Index vLog)) s
          else s)"

definition processSignerChangeEvent ::
  "syncer_env \<Rightarrow> string \<Rightarrow> ABI \<Rightarrow> Log \<Rightarrow> syncer_state \<Rightarrow> syncer_state" where
  "processSignerChangeEvent env eventName abiObject vLog s =
     (case unpackSignerChange env abiObject eventName vLog of
        None \<Rightarrow> s
      | Some (validatorId, newSigner) \<Rightarrow>
          if newSigner = GetAddress env
          then BroadcastToHeimdall
                 (MsgSignerUpdate (GetAddress env) (of_nat validatorId) (GetPubKey env)
                    (TxHash vLog) (Index vLog)) s
          else s)"

text \<open>\<open>processReStakedEvent\<close> and \<open>processJailedEvent\<close> decode and log; they change nothing.\<close>

definition processReStakedEvent ::
  "syncer_env \<Rightarrow> string \<Rightarrow> ABI \<Rightarrow> Log \<Rightarrow> syncer_state \<Rightarrow> syncer_state" where
  "processReStakedEvent env eventName abiObject vLog s = s"

definition processJailedEvent ::
  "syncer_env \<Rightarrow> string \<Rightarrow> ABI \<Rightarrow> Log \<Rightarrow> syncer_state \<Rightarrow> syncer_state" where
  "processJailedEvent env eventName abiObject vLog s = s"

definition processStateSyncedEvent ::
  "syncer_env \<Rightarrow> string \<Rightarrow> ABI \<Rightarrow> Log \<Rightarrow> syncer_state \<Rightarrow> syncer_state" where
  "processStateSyncedEvent env eventName abiObject vLog s =
     (case unpackStateSynced env abiObject eventName vLog of
        None \<Rightarrow> s
      | Some eventId \<Rightarrow>
          BroadcastToHeimdall
            (MsgEventRecord (GetAddress env) (TxHash vLog) (Index vLog) (of_nat eventId)
               (BorChainID env)) s)"

definition processTopupFeeEvent ::
  "syncer_env \<Rightarrow> string \<Rightarrow> ABI \<Rightarrow> Log \<Rightarrow> syncer_state \<Rightarrow> syncer_state" where
  "processTopupFeeEvent env eventName abiObject vLog s =
     (case unpackTopUpFee env abiObject eventName vLog of
        None \<Rightarrow> s
      | Some validatorId \<Rightarrow>
          BroadcastToHeimdall
            (MsgTopup (GetFromAddress env) (of_nat validatorId) (TxHash vLog) (Index vLog)) s)"

subsection \<open>The dispatch loop\<close>

text \<open>
  The \<open>switch selectedEvent.Name\<close> of \<open>processHeader\<close>. The case \<open>"Staked"\<close> is commented
  out in the source, so that name falls through the switch like an unknown one.
\<close>

definition dispatchEvent ::
  "syncer_env \<Rightarrow> string \<Rightarrow> ABI \<Rightarrow> Log \<Rightarrow> syncer_state \<Rightarrow> syncer_state" where
  "dispatchEvent env name abiObject vLog s =
     (if name = ''NewHeaderBlock'' then processCheckpointEvent env name abiObject vLog s
      else if name = ''UnstakeInit'' then processUnstakeInitEvent env name abiObject vLog s
      else if name = ''StakeUpdate'' then processStakeUpdateEvent env name abiObject vLog s
      else if name = ''SignerChange'' then processSignerChangeEvent env name abiObject vLog s
      else if name = ''ReStaked'' then processReStakedEvent env name abiObject vLog s
      else if name = ''Jailed'' then processJailedEvent env name abiObject vLog s
      else if name = ''StateSynced'' then processStateSyncedEvent env name abiObject vLog s
      else if name = ''TopUpFee'' then processTopupFeeEvent env name abiObject vLog s
      else s)"

text \<open>The inner loop over the ABIs: the first ABI that knows the topic handles the log.\<close>

fun dispatchLog ::
  "syncer_env \<Rightarrow> ABI list \<Rightarrow> bytes \<Rightarrow> Log \<Rightarrow> syncer_state \<Rightarrow> syncer_state" where
  "dispatchLog env [] topic vLog s = s"
| "dispatchLog env (abiObject # rest) topic vLog s =
     (case EventByID abiObject topic of
        None \<Rightarrow> dispatchLog env rest topic vLog s
      | Some name \<Rightarrow> dispatchEvent env name abiObject vLog s)"

text \<open>The outer loop over the logs; \<open>vLog.Topics[0]\<close> panics on a log without topics.\<close>

fun dispatchLogs :: "syncer_env \<Rightarrow> Log list \<Rightarrow> syncer_state \<Rightarrow> syncer_state exec" where
  "dispatchLogs env [] s = Returns s"
| "dispatchLogs env (vLog # logs) s =
     (case Topics vLog of
        [] \<Rightarrow> Panics s
      | topic # _ \<Rightarrow> dispatchLogs env logs (dispatchLog env (abis env) topic vLog s))"

subsection \<open>The cursor and the scan\<close>

text \<open>
  \<open>storageClient.Has\<close>, \<open>Get\<close> and \<open>Put\<close>. A failing \<open>Has\<close> reports the key as absent (its
  error is dropped), a failing \<open>Put\<close> leaves the store as it was (its error is dropped).
\<close>

definition Has :: "syncer_env \<Rightarrow> (string \<rightharpoonup> string) \<Rightarrow> string \<Rightarrow> bool" where
  "Has env db k = (\<not> hasFails env \<and> db k \<noteq> None)"

definition Get :: "syncer_env \<Rightarrow> (string \<rightharpoonup> string) \<Rightarrow> string \<Rightarrow> string option" where
  "Get env db k = (if getFails env then None else db k)"

definition Put ::
  "syncer_env \<Rightarrow> (string \<rightharpoonup> string) \<Rightarrow> string \<Rightarrow> string \<Rightarrow> (string \<rightharpoonup> string)" where
  "Put env db k v = (if putFails env then db else db(k \<mapsto> v))"

text \<open>
  The computation of \<open>fromBlock\<close> from the first confirmed number and the stored cursor.
  \<open>None\<close> is the early return on a failing \<open>Get\<close>. The first assignment under a parsed
  cursor is overwritten by the second, as in the source.
\<close>

definition fromBlockOf :: "syncer_env \<Rightarrow> (string \<rightharpoonup> string) \<Rightarrow> nat \<Rightarrow> nat option" where
  "fromBlockOf env db start =
     (let fromBlock = start in
      if Has env db lastBlockKey then
        (case Get env db lastBlockKey of
           None \<Rightarrow> None
         | Some lastBlockBytes \<Rightarrow>
             (case ParseUint lastBlockBytes of
                Some result \<Rightarrow>
                  (let fromBlock = (if result > of_nat fromBlock then unat result else fromBlock);
                       fromBlock = unat (result + 1)
                   in Some fromBlock)
              | None \<Rightarrow> Some fromBlock))
      else Some fromBlock)"

text \<open>
  The rest of \<open>processHeader\<close> once a range is confirmed: the cursor is written, then the
  logs are queried and dispatched.
\<close>

definition scanConfirmed :: "syncer_env \<Rightarrow> syncer_state \<Rightarrow> nat \<Rightarrow> nat \<Rightarrow> syncer_state exec" where
  "scanConfirmed env s start end' =
     (case fromBlockOf env (storage s) start of
        None \<Rightarrow> Returns s
      | Some fromBlock \<Rightarrow>
          (let toBlock = end';
               s1 = s\<lparr>storage := Put env (storage s) lastBlockKey (decimal toBlock)\<rparr>;
               s2 = s1\<lparr>queries := queries s1 @ [(fromBlock, toBlock)]\<rparr>
           in case FilterLogs env fromBlock toBlock of
                Inl err \<Rightarrow> Returns s2
              | Inr logs \<Rightarrow> dispatchLogs env logs s2))"

definition processHeader :: "syncer_env \<Rightarrow> syncer_state \<Rightarrow> Header \<Rightarrow> syncer_state exec" where
  "processHeader env s newHeader =
     (let q = headerQueue s @ [\<lparr>Number = HeaderNumber newHeader, Time = HeaderTime newHeader\<rparr>];
          (q', r) = confirmLoop (txConfirmationTime env) (currentTime env) q None;
          s1 = s\<lparr>headerQueue := q'\<rparr>
      in case r of
           None \<Rightarrow> Returns s1
         | Some (start, end') \<Rightarrow> scanConfirmed env s1 start end')"


section \<open>The span service (bridge/pier/span.go)\<close>

text \<open>The fields of \<open>hmTypes.Span\<close> and of \<open>bor.MsgProposeSpan\<close> that the service reads.\<close>

record Span =
  ID :: u64
  StartBlock :: u64
  EndBlock :: u64
  ChainID :: string

record MsgProposeSpan =
  Proposer :: string
  StartBlock :: u64
  EndBlock :: u64
  ChainID :: string


datatype rest_error = RestError






subsection \<open>Relaying a committed proposal\<close>

text \<open>
  The fields of \<open>ctypes.ResultTx\<close> that \<open>DispatchProposal\<close> reads. The merkle proof is
  only handed to \<open>helper.GetMerkleProofList\<close>, so its type is left open.
\<close>

record 'p ResultTx =
  Tx :: bytes
  Proof :: 'p

text \<open>
  What one run of \<open>DispatchProposal\<close> reads from outside: the votes of the block (votes,
  signatures, chain id), the transaction with its proof, and the helpers
  \<open>GetMerkleProofList\<close> and \<open>GetVoteBytes\<close>, which are declared elsewhere in the repository.
\<close>

record ('v, 'p) dispatch_env =
  fetchVotes :: "u64 \<Rightarrow> rest_error + 'v \<times> bytes \<times> string"
  QueryTxWithProof :: "bytes \<Rightarrow> rest_error + 'p ResultTx"
  GetMerkleProofList :: "'p \<Rightarrow> bytes list"
  GetVoteBytes :: "'v \<Rightarrow> string \<Rightarrow> bytes"

text \<open>
  The outcome of \<open>DispatchProposal\<close>: it returns before the contract call, it panics, or
  it calls \<open>CommitSpan(voteBytes, sigs, txBytes, proof)\<close>; the proof is the bytes of a text.
\<close>

datatype relay = NoRelay | RelayPanics | CommitSpan bytes bytes bytes string

text \<open>
  \<open>DispatchProposal\<close>. The error of \<open>QueryTxWithProof\<close> is dropped, so a failed query
  leaves a nil result and \<open>tx.Tx[4:]\<close> panics; it panics as well on fewer than 4 bytes.
\<close>

definition DispatchProposal ::
  "('v, 'p) dispatch_env \<Rightarrow> u64 \<Rightarrow> bytes \<Rightarrow> bytes \<Rightarrow> relay" where
  "DispatchProposal env height txHash txBytes =
     (case fetchVotes env height of
        Inl e \<Rightarrow> NoRelay
      | Inr (votes, sigs, chainID) \<Rightarrow>
          (case QueryTxWithProof env txHash of
             Inl e \<Rightarrow> RelayPanics
           | Inr tx \<Rightarrow>
               if length (Tx tx) < 4 then RelayPanics
               else
                 (let proofList = GetMerkleProofList env (Proof tx);
                      result = map EncodeToString proofList
                  in CommitSpan (GetVoteBytes env votes chainID) sigs (drop 4 (Tx tx))
                       (concat result))))"

section \<open>The checkpointer (nextExpectedCheckpoint, isForcePushNeeded)\<close>

text \<open>
  \<open>helper.GetConfig()\<close> is declared elsewhere in the repository; the two options the
  checkpointer reads are parameters, both \<open>uint64\<close>.
\<close>

record checkpoint_config =
  AvgCheckpointLength :: u64
  MaxCheckpointLength :: u64

text \<open>The fields of \<open>hmtypes.CheckpointBlockHeader\<close> that the checkpointer sets and reads.\<close>

record CheckpointBlockHeader =
  StartBlock :: u64
  EndBlock :: u64
  TimeStamp :: u64

text \<open>
  \<open>isForcePushNeeded\<close>. The clock \<open>time.Now().UTC().Unix()\<close> is the parameter \<open>now\<close>. The
  times are \<open>int64\<close>: the subtraction wraps and the comparison is signed. The result is
  \<open>(newStart, newEnd, updated)\<close>.
\<close>

definition isForcePushNeeded ::
  "checkpoint_config \<Rightarrow> u64 \<Rightarrow> u64 \<Rightarrow> u64 \<Rightarrow> u64 \<Rightarrow> u64 \<Rightarrow> u64 \<Rightarrow> u64 \<times> u64 \<times> bool" where
  "isForcePushNeeded cfg now start end' diff latestChildBlock lastCheckpointTime =
     (if end' = 0 \<or> end' = start \<or> (0 < diff \<and> diff < AvgCheckpointLength cfg) then
        (let defaultForcePushInterval = MaxCheckpointLength cfg * 2 in
         if defaultForcePushInterval <s now - lastCheckpointTime
         then (start, latestChildBlock, True)
         else (start, end', False))
      else (start, end', False))"

record ContractCheckpointState =
  start :: u64
  end' :: u64
  currentHeaderBlock :: "nat option"
  err :: "string option"

text \<open>
  A failed run of \<open>nextExpectedCheckpoint\<close>: the contract query failed and the error is
  returned, or \<open>diff % AvgCheckpointLength\<close> divided by zero and the run panicked.
\<close>

datatype checkpoint_failure = FetchError | DivideByZeroPanic

text \<open>
  \<open>nextExpectedCheckpoint\<close>. The result of \<open>fetchCheckpointFromContract\<close> is the
  parameter \<open>fetched\<close>. All of \<open>start\<close>, \<open>diff\<close>, \<open>expectedDiff\<close> and \<open>end\<close> are
  \<open>uint64\<close>.
\<close>

definition nextExpectedCheckpoint ::
  "checkpoint_config \<Rightarrow> u64 \<Rightarrow> checkpoint_failure + CheckpointBlockHeader \<Rightarrow> u64
    \<Rightarrow> checkpoint_failure + ContractCheckpointState" where
  "nextExpectedCheckpoint cfg now fetched latestChildBlock =
     (case fetched of
        Inl e \<Rightarrow> Inl e
      | Inr currentCheckpointHead \<Rightarrow>
          (let start = EndBlock currentCheckpointHead;
               start = (if start > 0 then start + 1 else start);
               diff = latestChildBlock - start + 1
           in if diff > 0 \<and> AvgCheckpointLength cfg = 0 then Inl DivideByZeroPanic
              else
                (let end' =
                       (if diff > 0 then
                          (let expectedDiff = diff - diff mod AvgCheckpointLength cfg;
                               expectedDiff =
                                 (if expectedDiff > 0 then expectedDiff - 1 else expectedDiff);
                               expectedDiff =
                                 (if expectedDiff > MaxCheckpointLength cfg - 1
                                  then MaxCheckpointLength cfg - 1 else expectedDiff)
                           in expectedDiff + start)
                        else 0);
                     (start, end', isUpdated) =
                       isForcePushNeeded cfg now start end' diff latestChildBlock
                         (TimeStamp currentCheckpointHead)
                 in Inr \<lparr>start = start, end' = end', currentHeaderBlock = None, err = None\<rparr>)))"

section \<open>Checkpoint genesis (checkpoint/types/genesis.go)\<close>

text \<open>
  \<open>Params\<close> and its \<open>Validate\<close> are declared elsewhere in the repository: the type is left
  open and the validation is a parameter (\<open>None\<close> is \<open>nil\<close>, an error is its message).
\<close>

record 'p GenesisState =
  Params :: 'p
  BufferedCheckpoint :: "CheckpointBlockHeader option"
  LastNoACK :: u64
  AckCount :: u64
  Headers :: "CheckpointBlockHeader list"

text \<open>\<open>ValidateGenesis\<close>: \<open>int(data.AckCount)\<close> reads the \<open>uint64\<close> as signed.\<close>

definition ValidateGenesis :: "('p \<Rightarrow> string option) \<Rightarrow> 'p GenesisState \<Rightarrow> string option" where
  "ValidateGenesis Validate data =
     (case Validate (Params data) of
        Some e \<Rightarrow> Some e
      | None \<Rightarrow>
          if length (Headers data) \<noteq> 0 then
            (if sint (AckCount data) \<noteq> int (length (Headers data))
             then Some ''Incorrect state in state-dump , Please Check''
             else None)
          else None)"

section \<open>Vocabulary of the statements and sample runs\<close>


text \<open>
  A sample syncer: the clock at 1020 and a confirmation time of 10 seconds, a working
  store, three ABIs with one-byte event ids, and a local validator that is the sender of
  the events of validator 3. The log query is left open.
\<close>

definition exampleABIs :: "ABI list" where
  "exampleABIs =
     [[(''NewHeaderBlock'', [1])],
      [(''StateSynced'', [2])],
      [(''Staked'', [3]), (''UnstakeInit'', [4]), (''TopUpFee'', [5])]]"

definition exampleEnv :: "(nat \<Rightarrow> nat \<Rightarrow> rpc_error + Log list) \<Rightarrow> syncer_env" where
  "exampleEnv filterLogs =
     \<lparr>currentTime = 1020, txConfirmationTime = 10,
      hasFails = False, getFails = False, putFails = False,
      FilterLogs = filterLogs,
      abis = exampleABIs,
      unpackNewHeaderBlock = (\<lambda>_ _ _. Some 10000),
      unpackStaked = (\<lambda>_ _ _. Some 3),
      unpackUnstakeInit = (\<lambda>_ _ _. Some 7),
      unpackStakeUpdate = (\<lambda>_ _ _. None),
      unpackSignerChange = (\<lambda>_ _ _. None),
      unpackStateSynced = (\<lambda>_ _ _. None),
      unpackTopUpFee = (\<lambda>_ _ _. None),
      GetAddress = [10], GetFromAddress = [11], GetPubKey = [4, 12],
      isEventSender = (\<lambda>validatorID. validatorID = 3), BorChainID = ''15001''\<rparr>"

definition exampleState :: "LightHeader list \<Rightarrow> (string \<rightharpoonup> string) \<Rightarrow> syncer_state" where
  "exampleState q db = \<lparr>headerQueue = q, storage = db, broadcast = [], queries = []\<rparr>"

text \<open>A \<open>Staked\<close> log of the sample staking ABI.\<close>

definition stakedLog :: Log where
  "stakedLog = \<lparr>Topics = [[3]], TxHash = [170], Index = 3\<rparr>"



text \<open>
  A sample relay: a committed transaction of six bytes whose proof lists two entries;
  the proof list is the proof itself.
\<close>

definition exampleDispatchEnv :: "(unit, bytes list) dispatch_env" where
  "exampleDispatchEnv =
     \<lparr>fetchVotes = (\<lambda>_. Inr ((), [9], ''15001'')),
      QueryTxWithProof = (\<lambda>_. Inr \<lparr>Tx = [1, 2, 3, 4, 5, 6], Proof = [[171], [205, 1]]\<rparr>),
      GetMerkleProofList = (\<lambda>p. p),
      GetVoteBytes = (\<lambda>_ _. [7])\<rparr>"

text \<open>Sample checkpoint configurations and a parameter validation that accepts.\<close>

definition exampleConfig :: checkpoint_config where
  "exampleConfig = \<lparr>AvgCheckpointLength = 100, MaxCheckpointLength = 200\<rparr>"

definition unitConfig :: checkpoint_config where
  "unitConfig = \<lparr>AvgCheckpointLength = 1, MaxCheckpointLength = 200\<rparr>"

definition headAt :: "u64 \<Rightarrow> u64 \<Rightarrow> CheckpointBlockHeader" where
  "headAt e t = \<lparr>StartBlock = 0, EndBlock = e, TimeStamp = t\<rparr>"

definition noParams :: "unit \<Rightarrow> string option" where
  "noParams p = None"

section \<open>Properties of the syncer\<close>

subsection \<open>The confirmation loop pops the longest confirmed prefix\<close>



subsection \<open>What the handlers change and leave unchanged\<close>

lemma BroadcastToHeimdall_queue [simp]: "headerQueue (BroadcastToHeimdall m s) = headerQueue s"
  by (simp add: BroadcastToHeimdall_def)

lemma BroadcastToHeimdall_queries [simp]: "queries (BroadcastToHeimdall m s) = queries s"
  by (simp add: BroadcastToHeimdall_def)

lemmas handler_defs =
  dispatchEvent_def processCheckpointEvent_def processUnstakeInitEvent_def
  processStakeUpdateEvent_def processSignerChangeEvent_def processReStakedEvent_def
  processJailedEvent_def processStateSyncedEvent_def processTopupFeeEvent_def

lemma dispatchEvent_queue [simp]: "headerQueue (dispatchEvent env name a l s) = headerQueue s"
  by (simp add: handler_defs split: option.splits prod.splits)

lemma dispatchEvent_queries [simp]: "queries (dispatchEvent env name a l s) = queries s"
  by (simp add: handler_defs split: option.splits prod.splits)

lemma dispatchLog_queue [simp]: "headerQueue (dispatchLog env as t l s) = headerQueue s"
  by (induction as) (auto split: option.splits)

lemma dispatchLog_queries [simp]: "queries (dispatchLog env as t l s) = queries s"
  by (induction as) (auto split: option.splits)

lemma dispatchLogs_queue [simp]: "headerQueue (final (dispatchLogs env ls s)) = headerQueue s"
  by (induction ls arbitrary: s) (auto split: list.splits)

lemma dispatchLogs_queries [simp]: "queries (final (dispatchLogs env ls s)) = queries s"
  by (induction ls arbitrary: s) (auto split: list.splits)

lemma scanConfirmed_queue [simp]: "headerQueue (final (scanConfirmed env s a b)) = headerQueue s"
  by (auto simp: scanConfirmed_def Let_def split: option.splits sum.splits)

lemma processHeader_confirmed:
  assumes "confirmLoop (txConfirmationTime env) (currentTime env)
             (headerQueue s @ [\<lparr>Number = HeaderNumber newHeader, Time = HeaderTime newHeader\<rparr>]) None
           = (q', Some (a, b))"
  shows "processHeader env s newHeader = scanConfirmed env (s\<lparr>headerQueue := q'\<rparr>) a b"
  using assms by (simp add: processHeader_def Let_def)

text \<open>No handler that the dispatch reaches hands a \<open>ValidatorJoin\<close> to the queue.\<close>

lemma dispatchEvent_no_join:
  "MsgValidatorJoin a i p t l \<in> set (broadcast (dispatchEvent env name abiObject vLog s)) \<Longrightarrow>
   MsgValidatorJoin a i p t l \<in> set (broadcast s)"
  by (auto simp: handler_defs BroadcastToHeimdall_def split: option.splits prod.splits if_splits)

lemma dispatchLog_no_join:
  "MsgValidatorJoin a i p t l \<in> set (broadcast (dispatchLog env as topic vLog s)) \<Longrightarrow>
   MsgValidatorJoin a i p t l \<in> set (broadcast s)"
  by (induction as) (auto split: option.splits dest: dispatchEvent_no_join)

lemma dispatchLogs_no_join:
  "MsgValidatorJoin a i p t l \<in> set (broadcast (final (dispatchLogs env logs s))) \<Longrightarrow>
   MsgValidatorJoin a i p t l \<in> set (broadcast s)"
proof (induction logs arbitrary: s)
  case Nil
  then show ?case by simp
next
  case (Cons vLog logs)
  show ?case
  proof (cases "Topics vLog")
    case Nil
    with Cons.prems show ?thesis by simp
  next
    case (Cons topic more)
    with Cons.prems Cons.IH show ?thesis
      by (auto dest: dispatchLog_no_join)
  qed
qed

lemma processHeader_no_join:
  assumes "MsgValidatorJoin a i p t l \<in> set (broadcast (final (processHeader env s newHeader)))"
  shows "MsgValidatorJoin a i p t l \<in> set (broadcast s)"
proof -
  obtain q' r where loop: "confirmLoop (txConfirmationTime env) (currentTime env)
      (headerQueue s @ [\<lparr>Number = HeaderNumber newHeader, Time = HeaderTime newHeader\<rparr>]) None = (q', r)"
    by (cases "confirmLoop (txConfirmationTime env) (currentTime env)
      (headerQueue s @ [\<lparr>Number = HeaderNumber newHeader, Time = HeaderTime newHeader\<rparr>]) None")
  show ?thesis
  proof (cases r)
    case None
    with loop assms show ?thesis by (simp add: processHeader_def Let_def)
  next
    case (Some ab)
    obtain x y where ab: "ab = (x, y)" by (cases ab)
    from assms loop Some ab
    have m: "MsgValidatorJoin a i p t l \<in>
               set (broadcast (final (scanConfirmed env (s\<lparr>headerQueue := q'\<rparr>) x y)))"
      by (simp add: processHeader_def Let_def)
    then show ?thesis
      by (auto simp: scanConfirmed_def Let_def split: option.splits sum.splits
          dest: dispatchLogs_no_join)
  qed
qed

text \<open>The definitions a sample run of the syncer unfolds.\<close>

lemmas sample_run =
  exampleEnv_def exampleState_def exampleABIs_def stakedLog_def processHeader_def
  scanConfirmed_def fromBlockOf_def Has_def Get_def Put_def lastBlockKey_def Let_def
  ParseUint_def digitVal_def decimal.simps digitChar_def EventByID_def dispatchEvent_def
  BroadcastToHeimdall_def processCheckpointEvent_def processUnstakeInitEvent_def
  processStakedEvent_def

subsection \<open>C1: the cursor and a failing log query\<close>

text \<open>
  C1, as the code has it. \<open>processHeader\<close> writes \<open>last-block\<close> before it queries the logs.
  When the confirmation loop yields a range \<open>(a, b)\<close>, the stored cursor is read without a
  store error, the store accepts the write and the log query fails, \<open>processHeader\<close>
  returns with \<open>last-block\<close> set to the decimal text of \<open>b\<close>, the number of the last
  confirmed header; the query is recorded and no message is handed to the broadcast queue.
\<close>

theorem processHeader_cursor_written_before_query:
  assumes loop: "confirmLoop (txConfirmationTime env) (currentTime env)
             (headerQueue s @ [\<lparr>Number = HeaderNumber newHeader, Time = HeaderTime newHeader\<rparr>]) None
           = (q', Some (a, b))"
      and cursor: "fromBlockOf env (storage s) a = Some fromBlock"
      and query: "FilterLogs env fromBlock b = Inl e"
      and put: "\<not> putFails env"
  shows "processHeader env s newHeader =
           Returns (s\<lparr>headerQueue := q',
                       storage := (storage s)(lastBlockKey \<mapsto> decimal b),
                       queries := queries s @ [(fromBlock, b)]\<rparr>)"
  using cursor query put
  by (simp add: processHeader_confirmed [OF loop] scanConfirmed_def Put_def Let_def)

text \<open>
  The sample syncer with a failing log query and the cursor at 99: the header 100 is
  confirmed, the query for \<open>[100, 100]\<close> fails, and the cursor is left at 100.
\<close>

theorem processHeader_cursor_written_before_query_witness:
  "processHeader (exampleEnv (\<lambda>_ _. Inl RpcError)) (exampleState [] [lastBlockKey \<mapsto> ''99''])
     \<lparr>HeaderNumber = 100, HeaderTime = 1000\<rparr> =
   Returns \<lparr>headerQueue = [], storage = [lastBlockKey \<mapsto> ''100''], broadcast = [],
            queries = [(100, 100)]\<rparr>"
  using processHeader_cursor_written_before_query
    [of "exampleEnv (\<lambda>_ _. Inl RpcError)" "exampleState [] [lastBlockKey \<mapsto> ''99'']"
        "\<lparr>HeaderNumber = 100, HeaderTime = 1000\<rparr>" "[]" 100 100 100 RpcError]
  by (simp add: sample_run)

text \<open>
  C1 as stated fails: the log query fails, the cursor was 99 before the run and is 100
  after it.
\<close>

theorem processHeader_cursor_advanced_on_query_error:
  "FilterLogs (exampleEnv (\<lambda>_ _. Inl RpcError)) 100 100 = Inl RpcError \<and>
   storage (exampleState [] [lastBlockKey \<mapsto> ''99'']) lastBlockKey = Some ''99'' \<and>
   storage (final (processHeader (exampleEnv (\<lambda>_ _. Inl RpcError))
                     (exampleState [] [lastBlockKey \<mapsto> ''99''])
                     \<lparr>HeaderNumber = 100, HeaderTime = 1000\<rparr>)) lastBlockKey = Some ''100''"
  by (simp add: sample_run)

subsection \<open>C2: Staked logs and the identity gate\<close>

text \<open>
  C2, as the code has it. \<open>processStakedEvent\<close>, on a log that unpacks, hands exactly one
  \<open>ValidatorJoin\<close> message (local address, validator id, local public key, transaction
  hash, log index) to the broadcast queue when \<open>isEventSender\<close> accepts the event's
  validator id, and nothing otherwise. The dispatch of \<open>processHeader\<close> does not route the
  event name \<open>Staked\<close> to it: that case of the switch is disabled, and a \<open>Staked\<close> log
  leaves the state as it was. So \<open>processHeader\<close> hands no \<open>ValidatorJoin\<close> to the queue:
  one that is in the queue after a run was there before it.
\<close>

theorem processStakedEvent_gate_and_dispatch:
  "(unpackStaked env abiObject eventName vLog = Some validatorId \<longrightarrow>
      broadcast (processStakedEvent env eventName abiObject vLog s) =
        (if isEventSender env (of_nat validatorId)
         then broadcast s @
                [MsgValidatorJoin (GetAddress env) (of_nat validatorId) (GetPubKey env)
                   (TxHash vLog) (Index vLog)]
         else broadcast s)) \<and>
   dispatchEvent env ''Staked'' abiObject vLog s = s \<and>
   (MsgValidatorJoin a i p t l \<in> set (broadcast (final (processHeader env s' newHeader))) \<longrightarrow>
      MsgValidatorJoin a i p t l \<in> set (broadcast s'))"
proof (intro conjI impI)
  assume "unpackStaked env abiObject eventName vLog = Some validatorId"
  then show "broadcast (processStakedEvent env eventName abiObject vLog s) =
        (if isEventSender env (of_nat validatorId)
         then broadcast s @
                [MsgValidatorJoin (GetAddress env) (of_nat validatorId) (GetPubKey env)
                   (TxHash vLog) (Index vLog)]
         else broadcast s)"
    by (simp add: processStakedEvent_def BroadcastToHeimdall_def)
next
  show "dispatchEvent env ''Staked'' abiObject vLog s = s"
    by (simp add: dispatchEvent_def)
next
  assume "MsgValidatorJoin a i p t l \<in> set (broadcast (final (processHeader env s' newHeader)))"
  then show "MsgValidatorJoin a i p t l \<in> set (broadcast s')"
    by (rule processHeader_no_join)
qed

text \<open>
  The sample syncer on a \<open>Staked\<close> log of validator 3: the handler would hand over the
  join message, the dispatch leaves the state alone, and the message is not in the queue
  after the scan that returns the log.
\<close>

theorem processStakedEvent_gate_and_dispatch_witness:
  "broadcast (processStakedEvent (exampleEnv (\<lambda>_ _. Inr [stakedLog])) ''Staked'' (exampleABIs ! 2)
                stakedLog (exampleState [] Map.empty)) =
     [MsgValidatorJoin [10] 3 [4, 12] [170] 3] \<and>
   dispatchEvent (exampleEnv (\<lambda>_ _. Inr [stakedLog])) ''Staked'' (exampleABIs ! 2) stakedLog
     (exampleState [] Map.empty) = exampleState [] Map.empty \<and>
   MsgValidatorJoin [10] 3 [4, 12] [170] 3 \<notin>
     set (broadcast (final (processHeader (exampleEnv (\<lambda>_ _. Inr [stakedLog]))
                              (exampleState [] Map.empty)
                              \<lparr>HeaderNumber = 100, HeaderTime = 1000\<rparr>)))"
  using processStakedEvent_gate_and_dispatch
    [of "exampleEnv (\<lambda>_ _. Inr [stakedLog])" "exampleABIs ! 2" "''Staked''" stakedLog 3
        "exampleState [] Map.empty" "[10]" 3 "[4, 12]" "[170]" 3
        "exampleState [] Map.empty" "\<lparr>HeaderNumber = 100, HeaderTime = 1000\<rparr>"]
  by (simp add: exampleEnv_def exampleState_def stakedLog_def)

text \<open>
  C2 as stated fails: the scan returns one \<open>Staked\<close> log of validator 3, whose sender
  the local validator is, the staking ABI knows its topic, and \<open>processHeader\<close> hands no
  message to the broadcast queue.
\<close>

theorem processHeader_drops_staked_log:
  "EventByID (exampleABIs ! 2) (hd (Topics stakedLog)) = Some ''Staked'' \<and>
   unpackStaked (exampleEnv (\<lambda>_ _. Inr [stakedLog])) (exampleABIs ! 2) ''Staked'' stakedLog = Some 3 \<and>
   isEventSender (exampleEnv (\<lambda>_ _. Inr [stakedLog])) 3 \<and>
   queries (final (processHeader (exampleEnv (\<lambda>_ _. Inr [stakedLog])) (exampleState [] Map.empty)
                     \<lparr>HeaderNumber = 100, HeaderTime = 1000\<rparr>)) = [(100, 100)] \<and>
   broadcast (final (processHeader (exampleEnv (\<lambda>_ _. Inr [stakedLog])) (exampleState [] Map.empty)
                       \<lparr>HeaderNumber = 100, HeaderTime = 1000\<rparr>)) = []"
  by (simp add: sample_run)

subsection \<open>C3: the scan range\<close>

text \<open>
  C3, as the code has it. When the confirmation loop yields a range \<open>(a, b)\<close> and a cursor
  is stored, is read without a store error and parses to \<open>cursor\<close>, then \<open>fromBlock\<close> is
  \<open>cursor + 1\<close> (a \<open>uint64\<close> sum), whatever the first confirmed number \<open>a\<close> is, \<open>toBlock\<close>
  is \<open>b\<close>, the number of the last confirmed header, and \<open>processHeader\<close> sends exactly
  one log query, for \<open>[cursor + 1, b]\<close>.
\<close>

theorem processHeader_scan_range_from_cursor:
  assumes loop: "confirmLoop (txConfirmationTime env) (currentTime env)
             (headerQueue s @ [\<lparr>Number = HeaderNumber newHeader, Time = HeaderTime newHeader\<rparr>]) None
           = (q', Some (a, b))"
      and faults: "\<not> hasFails env" "\<not> getFails env"
      and stored: "storage s lastBlockKey = Some lastBlockBytes"
      and parsed: "ParseUint lastBlockBytes = Some cursor"
  shows "fromBlockOf env (storage s) a = Some (unat (cursor + 1)) \<and>
         queries (final (processHeader env s newHeader)) = queries s @ [(unat (cursor + 1), b)]"
proof -
  have f: "fromBlockOf env (storage s) a = Some (unat (cursor + 1))"
    using faults stored parsed by (simp add: fromBlockOf_def Has_def Get_def Let_def)
  have "queries (final (processHeader env s newHeader)) = queries s @ [(unat (cursor + 1), b)]"
    using f
    by (simp add: processHeader_confirmed [OF loop] scanConfirmed_def Let_def split: sum.splits)
  with f show ?thesis by simp
qed

theorem processHeader_scan_range_from_cursor_witness:
  "fromBlockOf (exampleEnv (\<lambda>_ _. Inr [])) [lastBlockKey \<mapsto> ''99''] 100 = Some 100 \<and>
   queries (final (processHeader (exampleEnv (\<lambda>_ _. Inr []))
                     (exampleState [\<lparr>Number = 100, Time = 1000\<rparr>] [lastBlockKey \<mapsto> ''99''])
                     \<lparr>HeaderNumber = 101, HeaderTime = 1001\<rparr>)) = [(100, 101)]"
  using processHeader_scan_range_from_cursor
    [of "exampleEnv (\<lambda>_ _. Inr [])"
        "exampleState [\<lparr>Number = 100, Time = 1000\<rparr>] [lastBlockKey \<mapsto> ''99'']"
        "\<lparr>HeaderNumber = 101, HeaderTime = 1001\<rparr>" "[]" 100 101 "''99''" 99]
  by (simp add: exampleEnv_def exampleState_def lastBlockKey_def ParseUint_def digitVal_def)

text \<open>
  C3 as stated fails twice. With the cursor at 5 and the header 100 confirmed, the query
  starts at 6, not at \<open>max 100 (5 + 1) = 100\<close>. With the cursor at 200 and the header 100
  confirmed, \<open>fromBlock = 201\<close> exceeds \<open>toBlock = 100\<close> and the query is sent all the same.
\<close>

theorem processHeader_scan_range_not_max:
  "queries (final (processHeader (exampleEnv (\<lambda>_ _. Inr []))
                     (exampleState [] [lastBlockKey \<mapsto> ''5''])
                     \<lparr>HeaderNumber = 100, HeaderTime = 1000\<rparr>)) = [(6, 100)] \<and>
   (6::nat) \<noteq> max 100 (5 + 1) \<and>
   queries (final (processHeader (exampleEnv (\<lambda>_ _. Inr []))
                     (exampleState [] [lastBlockKey \<mapsto> ''200''])
                     \<lparr>HeaderNumber = 100, HeaderTime = 1000\<rparr>)) = [(201, 100)] \<and>
   (100::nat) < 201"
  by (simp add: sample_run)

subsection \<open>C6: the confirmed prefix and the scan range\<close>






section \<open>Properties of the checkpointer\<close>

subsection \<open>The two functions as equations\<close>

lemma isForcePushNeeded_eq:
  "isForcePushNeeded cfg now s e diff latestChildBlock lastCheckpointTime =
     (let fires = ((e = 0 \<or> e = s \<or> (0 < diff \<and> diff < AvgCheckpointLength cfg)) \<and>
                   MaxCheckpointLength cfg * 2 <s now - lastCheckpointTime)
      in (s, if fires then latestChildBlock else e, fires))"
  by (auto simp: isForcePushNeeded_def Let_def)

lemma cap_is_min: "(if (m::u64) < x then m else x) = min m x"
  by (auto simp: min_def not_less)

lemma min_zero_word: "min (m::u64) 0 = 0"
  by (simp add: min_def)

text \<open>
  When \<open>nextExpectedCheckpoint\<close> does not fail: the next start \<open>s0\<close>, the difference
  \<open>diff\<close>, the normal end \<open>e0\<close>, and the end after the force-push check.
\<close>

lemma nextExpectedCheckpoint_eq:
  assumes avg: "AvgCheckpointLength cfg \<noteq> 0 \<or> latestChildBlock - s0 + 1 = 0"
      and s0: "s0 = (if 0 < EndBlock head then EndBlock head + 1 else EndBlock head)"
      and diff: "diff = latestChildBlock - s0 + 1"
      and q: "q = diff - diff mod AvgCheckpointLength cfg"
      and e0: "e0 = (if 0 < diff
                     then s0 + min (MaxCheckpointLength cfg - 1) (q - (if 0 < q then 1 else 0))
                     else 0)"
  shows "nextExpectedCheckpoint cfg now (Inr head) latestChildBlock =
           Inr \<lparr>start = s0,
                end' = (if snd (snd (isForcePushNeeded cfg now s0 e0 diff latestChildBlock
                                       (TimeStamp head)))
                        then latestChildBlock else e0),
                currentHeaderBlock = None, err = None\<rparr>"
proof -
  define fires where
    "fires = snd (snd (isForcePushNeeded cfg now s0 e0 diff latestChildBlock (TimeStamp head)))"
  have fp: "isForcePushNeeded cfg now s0 e0 diff latestChildBlock (TimeStamp head) =
        (s0, (if fires then latestChildBlock else e0), fires)"
    by (simp add: fires_def isForcePushNeeded_eq Let_def)
  have nopanic: "\<not> (0 < diff \<and> AvgCheckpointLength cfg = 0)"
    using avg diff by auto
  have e0': "(if 0 < diff then
                (let expectedDiff = diff - diff mod AvgCheckpointLength cfg;
                     expectedDiff = (if 0 < expectedDiff then expectedDiff - 1 else expectedDiff);
                     expectedDiff = (if MaxCheckpointLength cfg - 1 < expectedDiff
                                     then MaxCheckpointLength cfg - 1 else expectedDiff)
                 in expectedDiff + s0)
              else 0) = e0"
    unfolding e0 q Let_def cap_is_min
    by (simp add: add.commute)
  show ?thesis
    unfolding nextExpectedCheckpoint_def sum.case
    apply (subst Let_def)
    apply (subst Let_def)
    apply (subst Let_def)
    unfolding s0 [symmetric] diff [symmetric]
    apply (subst if_not_P, rule nopanic)
    apply (subst e0')
    apply (subst Let_def)
    apply (simp add: fp)
    done
qed

subsection \<open>Facts of unsigned arithmetic\<close>

lemma wrap_start_zero:
  fixes s0 latest :: u64
  assumes "s0 \<le> latest" "latest - s0 + 1 = 0"
  shows "s0 = 0"
  by (metis (no_types, lifting) add_diff_cancel_left assms(1,2)
    diff_add_cancel diff_zero less_eq_dec_triv_imp)

lemma multiple_ge:
  fixes d a :: u64
  assumes "0 < a" "a \<le> d"
  shows "a \<le> d - d mod a"
proof -
  have le: "d mod a \<le> d" by (simp add: word_le_nat_alt unat_mod)
  have a0: "0 < unat a" using assms(1) by (simp add: word_less_nat_alt)
  have ad: "unat a \<le> unat d" using assms(2) by (simp add: word_le_nat_alt)
  have "unat (d - d mod a) = unat d - unat d mod unat a"
    using le by (simp add: unat_sub unat_mod)
  also have "\<dots> = unat a * (unat d div unat a)"
    by (simp add: minus_mod_eq_mult_div)
  also have "\<dots> \<ge> unat a"
    using a0 ad by (simp add: Suc_le_eq div_greater_zero_iff)
  finally show ?thesis by (simp add: word_le_nat_alt)
qed

text \<open>
  With an average length of at least 2 that does not exceed the maximal length, and no
  overflow of \<open>start + MaxCheckpointLength\<close>, the condition of the force push on the
  normal end is \<open>diff < AvgCheckpointLength\<close>.
\<close>

lemma force_condition_iff:
  fixes s0 diff a m :: u64
  assumes a2: "2 \<le> a" and am: "a \<le> m" and nowrap: "unat s0 + unat m \<le> 2 ^ 64"
      and q: "q = diff - diff mod a"
      and e0: "e0 = (if 0 < diff then s0 + min (m - 1) (q - (if 0 < q then 1 else 0)) else 0)"
  shows "(e0 = 0 \<or> e0 = s0 \<or> (0 < diff \<and> diff < a)) = (diff < a)"
proof (cases "diff < a")
  case True
  show ?thesis
  proof (cases "0 < diff")
    case True
    with \<open>diff < a\<close> show ?thesis by simp
  next
    case False
    with \<open>diff < a\<close> show ?thesis by (simp add: e0)
  qed
next
  case False
  then have ad: "a \<le> diff" by (simp add: not_less)
  have a0: "0 < a" using a2 by (simp add: word_le_nat_alt word_less_nat_alt)
  have d0: "0 < diff" using a2 ad by (simp add: word_le_nat_alt word_less_nat_alt)
  have "a \<le> q" unfolding q using a0 ad by (rule multiple_ge)
  then have q2: "2 \<le> unat q" using a2 by (simp add: word_le_nat_alt)
  then have q0: "0 < q" by (simp add: word_less_nat_alt)
  have m2: "2 \<le> unat m" using a2 am by (simp add: word_le_nat_alt)
  define x where "x = min (m - 1) (q - 1)"
  have um: "unat (m - 1) = unat m - 1" using m2 by (simp add: unat_sub word_le_nat_alt)
  have uq: "unat (q - 1) = unat q - 1" using q2 by (simp add: unat_sub word_le_nat_alt)
  have ux: "unat x = min (unat m - 1) (unat q - 1)"
    by (simp add: x_def min_def word_le_nat_alt um uq)
  have x1: "1 \<le> unat x" and xm: "unat x < unat m"
    using ux q2 m2 by auto
  have e: "e0 = s0 + x" using d0 q0 by (simp add: e0 x_def)
  have "unat s0 + unat x < 2 ^ 64" using xm nowrap by simp
  then have ue: "unat e0 = unat s0 + unat x"
    by (simp add: e unat_add_lem [THEN iffD1])
  have "e0 \<noteq> 0" using ue x1 by (auto simp: unat_eq_0 [symmetric] simp del: unat_eq_0)
  moreover have "e0 \<noteq> s0" using ue x1 by auto
  ultimately show ?thesis using False by simp
qed

text \<open>The definitions a sample run of the checkpointer unfolds.\<close>

lemmas sample_checkpoint =
  nextExpectedCheckpoint_def isForcePushNeeded_def exampleConfig_def unitConfig_def headAt_def
  Let_def word_less_nat_alt word_le_nat_alt word_sless_alt

subsection \<open>C4: a child block below the next start\<close>

text \<open>
  C4 does not hold of the code. The on-chain checkpoint ends at 99, so the next start is
  100; the latest child block is 50, so \<open>latestChildBlock + 1 < start\<close>. The \<open>uint64\<close>
  difference wraps to \<open>2^64 - 49\<close>, passes the test \<open>diff > 0\<close> and is capped at
  \<open>MaxCheckpointLength - 1\<close>: the run returns the range \<open>[100, 299]\<close> instead of idling.
\<close>

theorem nextExpectedCheckpoint_underflow_proposes:
  "(50 :: u64) + 1 < 100 \<and>
   (50 :: u64) - 100 + 1 = 18446744073709551567 \<and>
   nextExpectedCheckpoint exampleConfig 1000 (Inr (headAt 99 995)) 50 =
     Inr \<lparr>start = 100, end' = 299, currentHeaderBlock = None, err = None\<rparr>"
  by (simp add: sample_checkpoint)

subsection \<open>C5: the normal range\<close>

text \<open>
  C5. With a configured average length (\<open>AvgCheckpointLength \<noteq> 0\<close>, else the run panics
  on the division), a fetched on-chain head and \<open>latestChildBlock \<ge> start\<close>, where
  \<open>start\<close> is the on-chain end, incremented by 1 when it is positive: if no force push
  fires, \<open>nextExpectedCheckpoint\<close> returns \<open>start\<close> and
  \<open>end = start + min (MaxCheckpointLength - 1) (q - (1 if q > 0 else 0))\<close> with
  \<open>diff = latestChildBlock - start + 1\<close> and \<open>q = diff - diff mod AvgCheckpointLength\<close>.
\<close>

theorem nextExpectedCheckpoint_normal_range:
  assumes avg: "AvgCheckpointLength cfg \<noteq> 0"
      and s0: "s0 = (if 0 < EndBlock head then EndBlock head + 1 else EndBlock head)"
      and ge: "s0 \<le> latestChildBlock"
      and diff: "diff = latestChildBlock - s0 + 1"
      and q: "q = diff - diff mod AvgCheckpointLength cfg"
      and e0: "e0 = s0 + min (MaxCheckpointLength cfg - 1) (q - (if 0 < q then 1 else 0))"
      and noforce:
        "\<not> snd (snd (isForcePushNeeded cfg now s0 e0 diff latestChildBlock (TimeStamp head)))"
  shows "nextExpectedCheckpoint cfg now (Inr head) latestChildBlock =
           Inr \<lparr>start = s0, end' = e0, currentHeaderBlock = None, err = None\<rparr>"
proof -
  have e0': "e0 = (if 0 < diff
                   then s0 + min (MaxCheckpointLength cfg - 1) (q - (if 0 < q then 1 else 0))
                   else 0)"
  proof (cases "0 < diff")
    case True
    then show ?thesis by (simp add: e0)
  next
    case False
    then have d0: "diff = 0" by (simp add: word_neq_0_conv [symmetric])
    then have "latestChildBlock - s0 + 1 = 0" by (simp add: diff)
    with ge have "s0 = 0" by (rule wrap_start_zero)
    moreover have "q = 0" by (simp add: q d0)
    ultimately show ?thesis by (simp add: e0 d0 min_zero_word)
  qed
  from avg have "AvgCheckpointLength cfg \<noteq> 0 \<or> latestChildBlock - s0 + 1 = 0" by simp
  from nextExpectedCheckpoint_eq [OF this s0 diff q e0', of now] noforce
  show ?thesis by simp
qed

text \<open>
  The on-chain checkpoint ends at 99 and is 5 seconds old, the latest child block is 260,
  the average length is 100 and the maximal length 200: the range is \<open>[100, 199]\<close>.
\<close>

theorem nextExpectedCheckpoint_normal_range_witness:
  "nextExpectedCheckpoint exampleConfig 1000 (Inr (headAt 99 995)) 260 =
     Inr \<lparr>start = 100, end' = 199, currentHeaderBlock = None, err = None\<rparr>"
proof -
  have avg: "AvgCheckpointLength exampleConfig \<noteq> 0"
    by (simp add: exampleConfig_def)
  have s0: "(100::u64) = (if 0 < EndBlock (headAt 99 995) then EndBlock (headAt 99 995) + 1
                          else EndBlock (headAt 99 995))"
    by (simp add: headAt_def)
  have ge: "(100::u64) \<le> 260" by simp
  have diff: "(161::u64) = 260 - 100 + 1" by simp
  have q: "(100::u64) = 161 - 161 mod AvgCheckpointLength exampleConfig"
    by (simp add: exampleConfig_def)
  have e0: "(199::u64) = 100 + min (MaxCheckpointLength exampleConfig - 1)
                                  (100 - (if 0 < (100::u64) then 1 else 0))"
    by (simp add: exampleConfig_def)
  have noforce: "\<not> snd (snd (isForcePushNeeded exampleConfig 1000 100 199 161 260
                                 (TimeStamp (headAt 99 995))))"
    by (simp add: isForcePushNeeded_def exampleConfig_def headAt_def Let_def word_sless_alt)
  show ?thesis
    by (rule nextExpectedCheckpoint_normal_range [OF avg s0 ge diff q e0 noforce])
qed

subsection \<open>C7: when the force push fires\<close>

text \<open>
  C7, as the code has it. \<open>isForcePushNeeded\<close> returns \<open>updated = true\<close> exactly when
  \<open>end == 0\<close> or \<open>end == start\<close> or \<open>0 < diff < AvgCheckpointLength\<close>, and
  \<open>now - lastCheckpointTime > 2 * MaxCheckpointLength\<close> as \<open>int64\<close>; the end it returns is
  then \<open>latestChildBlock\<close>, and the given end otherwise. In \<open>nextExpectedCheckpoint\<close>, for
  \<open>2 \<le> AvgCheckpointLength \<le> MaxCheckpointLength\<close> and a start with no overflow of
  \<open>start + MaxCheckpointLength\<close>, the end is overridden exactly when the checkpoint age
  exceeds \<open>2 * MaxCheckpointLength\<close> and \<open>diff = latestChildBlock - start + 1\<close> is less
  than \<open>AvgCheckpointLength\<close>.
\<close>

theorem force_push_trigger:
  "snd (snd (isForcePushNeeded cfg now s e diff latestChildBlock lastCheckpointTime)) =
     ((e = 0 \<or> e = s \<or> (0 < diff \<and> diff < AvgCheckpointLength cfg)) \<and>
      MaxCheckpointLength cfg * 2 <s now - lastCheckpointTime) \<and>
   fst (snd (isForcePushNeeded cfg now s e diff latestChildBlock lastCheckpointTime)) =
     (if snd (snd (isForcePushNeeded cfg now s e diff latestChildBlock lastCheckpointTime))
      then latestChildBlock else e) \<and>
   (2 \<le> AvgCheckpointLength cfg \<and> AvgCheckpointLength cfg \<le> MaxCheckpointLength cfg \<and>
    unat s0 + unat (MaxCheckpointLength cfg) \<le> 2 ^ 64 \<and>
    s0 = (if 0 < EndBlock head then EndBlock head + 1 else EndBlock head) \<and>
    d = latestChildBlock - s0 + 1 \<and>
    q = d - d mod AvgCheckpointLength cfg \<and>
    e0 = (if 0 < d then s0 + min (MaxCheckpointLength cfg - 1) (q - (if 0 < q then 1 else 0))
          else 0)
    \<longrightarrow>
    nextExpectedCheckpoint cfg now (Inr head) latestChildBlock =
      Inr \<lparr>start = s0,
           end' = (if MaxCheckpointLength cfg * 2 <s now - TimeStamp head \<and>
                      d < AvgCheckpointLength cfg
                   then latestChildBlock else e0),
           currentHeaderBlock = None, err = None\<rparr>)"
proof (intro conjI impI)
  show "snd (snd (isForcePushNeeded cfg now s e diff latestChildBlock lastCheckpointTime)) =
     ((e = 0 \<or> e = s \<or> (0 < diff \<and> diff < AvgCheckpointLength cfg)) \<and>
      MaxCheckpointLength cfg * 2 <s now - lastCheckpointTime)"
    by (simp add: isForcePushNeeded_eq Let_def)
  show "fst (snd (isForcePushNeeded cfg now s e diff latestChildBlock lastCheckpointTime)) =
     (if snd (snd (isForcePushNeeded cfg now s e diff latestChildBlock lastCheckpointTime))
      then latestChildBlock else e)"
    by (simp add: isForcePushNeeded_eq Let_def)
next
  assume h: "2 \<le> AvgCheckpointLength cfg \<and> AvgCheckpointLength cfg \<le> MaxCheckpointLength cfg \<and>
    unat s0 + unat (MaxCheckpointLength cfg) \<le> 2 ^ 64 \<and>
    s0 = (if 0 < EndBlock head then EndBlock head + 1 else EndBlock head) \<and>
    d = latestChildBlock - s0 + 1 \<and>
    q = d - d mod AvgCheckpointLength cfg \<and>
    e0 = (if 0 < d then s0 + min (MaxCheckpointLength cfg - 1) (q - (if 0 < q then 1 else 0))
          else 0)"
  then have a2: "2 \<le> AvgCheckpointLength cfg"
    and am: "AvgCheckpointLength cfg \<le> MaxCheckpointLength cfg"
    and nowrap: "unat s0 + unat (MaxCheckpointLength cfg) \<le> 2 ^ 64"
    and s0: "s0 = (if 0 < EndBlock head then EndBlock head + 1 else EndBlock head)"
    and d: "d = latestChildBlock - s0 + 1"
    and q: "q = d - d mod AvgCheckpointLength cfg"
    and e0: "e0 = (if 0 < d
                   then s0 + min (MaxCheckpointLength cfg - 1) (q - (if 0 < q then 1 else 0))
                   else 0)"
    by blast+
  have "AvgCheckpointLength cfg \<noteq> 0" using a2 by auto
  then have avg: "AvgCheckpointLength cfg \<noteq> 0 \<or> latestChildBlock - s0 + 1 = 0" by simp
  have c: "(e0 = 0 \<or> e0 = s0 \<or> (0 < d \<and> d < AvgCheckpointLength cfg)) =
           (d < AvgCheckpointLength cfg)"
    using a2 am nowrap q e0 by (rule force_condition_iff)
  have "snd (snd (isForcePushNeeded cfg now s0 e0 d latestChildBlock (TimeStamp head))) =
        (MaxCheckpointLength cfg * 2 <s now - TimeStamp head \<and> d < AvgCheckpointLength cfg)"
    by (simp add: isForcePushNeeded_eq Let_def c conj_commute)
  with nextExpectedCheckpoint_eq [OF avg s0 d q e0, of now]
  show "nextExpectedCheckpoint cfg now (Inr head) latestChildBlock =
      Inr \<lparr>start = s0,
           end' = (if MaxCheckpointLength cfg * 2 <s now - TimeStamp head \<and>
                      d < AvgCheckpointLength cfg
                   then latestChildBlock else e0),
           currentHeaderBlock = None, err = None\<rparr>"
    by simp
qed

text \<open>
  The on-chain checkpoint ends at 99 and is 1000 seconds old, the latest child block is
  120: \<open>diff = 21 < 100\<close> and \<open>1000 > 400\<close>, so the end is overridden and the range is
  \<open>[100, 120]\<close>.
\<close>

theorem force_push_trigger_witness:
  "isForcePushNeeded exampleConfig 2000 100 100 21 120 1000 = (100, 120, True) \<and>
   nextExpectedCheckpoint exampleConfig 2000 (Inr (headAt 99 1000)) 120 =
     Inr \<lparr>start = 100, end' = 120, currentHeaderBlock = None, err = None\<rparr>"
  using force_push_trigger
    [of exampleConfig 2000 100 100 21 120 1000 100 "headAt 99 1000" 21 0 100]
  by (simp add: sample_checkpoint)

text \<open>
  C7 as stated fails, whichever quantity "the normally expected diff" is. Read as the
  expected difference \<open>end - start\<close> of the normal range: with the on-chain end at 99,
  the latest child block at 220 and an age of 1000 seconds, that difference is
  \<open>199 - 100 = 99 < 100\<close> and \<open>1000 > 400\<close>, yet no force push fires and the range stays
  \<open>[100, 199]\<close>. Read as \<open>diff\<close>: with an average length of 1 and the latest child block
  at 100, \<open>diff = 1\<close> is not less than the average length, yet the force push fires.
\<close>

theorem force_push_not_expected_diff:
  "nextExpectedCheckpoint exampleConfig 2000 (Inr (headAt 99 1000)) 220 =
     Inr \<lparr>start = 100, end' = 199, currentHeaderBlock = None, err = None\<rparr> \<and>
   isForcePushNeeded exampleConfig 2000 100 199 121 220 1000 = (100, 199, False) \<and>
   (199 :: u64) - 100 < AvgCheckpointLength exampleConfig \<and>
   MaxCheckpointLength exampleConfig * 2 <s (2000 :: u64) - 1000 \<and>
   nextExpectedCheckpoint unitConfig 2000 (Inr (headAt 99 1000)) 100 =
     Inr \<lparr>start = 100, end' = 100, currentHeaderBlock = None, err = None\<rparr> \<and>
   isForcePushNeeded unitConfig 2000 100 100 1 100 1000 = (100, 100, True) \<and>
   \<not> (100 :: u64) - 100 + 1 < AvgCheckpointLength unitConfig"
  by (simp add: sample_checkpoint)

section \<open>Properties of the span service\<close>







subsection \<open>C8: the start block of a span proposal\<close>




subsection \<open>C9: the arguments of the relay call\<close>

lemma EncodeToString_append:
  "EncodeToString (xs @ ys) = EncodeToString xs @ EncodeToString ys"
  by (induction xs) simp_all

lemma EncodeToString_concat: "EncodeToString (concat xss) = concat (map EncodeToString xss)"
  by (induction xss) (simp_all add: EncodeToString_append)

text \<open>
  C9. Whenever \<open>DispatchProposal\<close> calls \<open>CommitSpan\<close>, the transaction was fetched, it is
  its first 4 bytes followed by the transaction argument of the call, and the proof
  argument is the hexadecimal text of the flat concatenation of the entries that
  \<open>GetMerkleProofList\<close> returns for the proof, in their order. The call is made whenever
  the votes and the transaction are fetched and the transaction has at least 4 bytes.
\<close>

theorem DispatchProposal_commitSpan_arguments:
  "(DispatchProposal env height txHash txBytes = CommitSpan voteBytes sigs body prf \<longrightarrow>
      (\<exists>tx. QueryTxWithProof env txHash = Inr tx \<and>
            Tx tx = take 4 (Tx tx) @ body \<and> length (take 4 (Tx tx)) = 4 \<and>
            prf = EncodeToString (concat (GetMerkleProofList env (Proof tx))))) \<and>
   (fetchVotes env height = Inr (votes, sigs', chainID) \<and>
    QueryTxWithProof env txHash = Inr tx' \<and> 4 \<le> length (Tx tx') \<longrightarrow>
      DispatchProposal env height txHash txBytes =
        CommitSpan (GetVoteBytes env votes chainID) sigs' (drop 4 (Tx tx'))
          (concat (map EncodeToString (GetMerkleProofList env (Proof tx')))))"
  by (auto simp: DispatchProposal_def Let_def EncodeToString_concat
      split: sum.splits prod.splits if_splits)

text \<open>
  The sample relay: the transaction \<open>01 02 03 04 05 06\<close> is passed as \<open>05 06\<close>, and the
  proof entries \<open>ab\<close> and \<open>cd 01\<close> as the text \<open>abcd01\<close>.
\<close>

theorem DispatchProposal_commitSpan_arguments_witness:
  "DispatchProposal exampleDispatchEnv 7 [1] [1, 2, 3, 4, 5, 6] =
     CommitSpan [7] [9] [5, 6] ''abcd01''"
proof -
  have pre: "fetchVotes exampleDispatchEnv 7 = Inr ((), [9], ''15001'') \<and>
             QueryTxWithProof exampleDispatchEnv [1] =
               Inr \<lparr>Tx = [1, 2, 3, 4, 5, 6], Proof = [[171], [205, 1]]\<rparr> \<and>
             4 \<le> length (Tx \<lparr>Tx = [1, 2, 3, 4, 5, 6 :: 8 word], Proof = [[171], [205, 1 :: 8 word]]\<rparr>)"
    by (simp add: exampleDispatchEnv_def)
  have hex: "concat (map EncodeToString [[171], [205, 1]]) = ''abcd01''"
    by (simp add: hexDigit_def)
  from DispatchProposal_commitSpan_arguments
         [of exampleDispatchEnv 7 "[1]" "[1, 2, 3, 4, 5, 6]" "[]" "[]" "[]" "[]" "()" "[9]" "''15001''"
             "\<lparr>Tx = [1, 2, 3, 4, 5, 6], Proof = [[171], [205, 1]]\<rparr>"]
       pre hex
  show ?thesis by (simp add: exampleDispatchEnv_def)
qed

section \<open>Properties of the checkpoint genesis\<close>

text \<open>A \<open>uint64\<close> read as \<open>int\<close> equals a slice length exactly when it equals it unsigned.\<close>

lemma sint_eq_nat_iff:
  fixes w :: u64
  assumes n: "n < 2 ^ 63"
  shows "(sint w = int n) = (unat w = n)"
proof
  have iu: "int (unat w) = uint w" by (rule uint_nat [symmetric])
  assume "sint w = int n"
  then have "uint w = take_bit 64 (int n)"
    using uint_sint [of w] by simp
  also have "\<dots> = int n"
    using n by (simp add: take_bit_int_eq_self)
  finally have "uint w = int n" .
  with iu show "unat w = n" by linarith
next
  have iu: "int (unat w) = uint w" by (rule uint_nat [symmetric])
  assume u: "unat w = n"
  with iu have "uint w = int n" by linarith
  moreover have "signed_take_bit 63 (int n) = int n"
    using n by (simp add: signed_take_bit_int_eq_self)
  ultimately show "sint w = int n"
    using sint_uint [of w] by simp
qed

subsection \<open>C10: when the genesis state is rejected\<close>

text \<open>
  C10. For a genesis state whose header list has a length that fits an \<open>int\<close> (as every
  slice has), \<open>ValidateGenesis\<close> returns an error exactly when the validation of the
  parameters returns one, or the header list is not empty and \<open>AckCount\<close> differs from
  its length. With an empty header list the result is that of the parameters'
  validation, whatever \<open>AckCount\<close> is.
\<close>

theorem ValidateGenesis_error_iff:
  assumes "length (Headers data) < 2 ^ 63"
  shows "(ValidateGenesis Validate data \<noteq> None) =
           (Validate (Params data) \<noteq> None \<or>
            (Headers data \<noteq> [] \<and> unat (AckCount data) \<noteq> length (Headers data))) \<and>
         (Headers data = [] \<longrightarrow> ValidateGenesis Validate data = Validate (Params data))"
  using sint_eq_nat_iff [OF assms, of "AckCount data"]
  by (auto simp: ValidateGenesis_def split: option.splits)

text \<open>
  With valid parameters: no headers and an \<open>AckCount\<close> of 7 is accepted; one header and
  an \<open>AckCount\<close> of 2 is rejected.
\<close>

theorem ValidateGenesis_error_iff_witness:
  "ValidateGenesis noParams
     \<lparr>Params = (), BufferedCheckpoint = None, LastNoACK = 0, AckCount = 7, Headers = []\<rparr> = None \<and>
   ValidateGenesis noParams
     \<lparr>Params = (), BufferedCheckpoint = None, LastNoACK = 0, AckCount = 2,
      Headers = [headAt 255 1]\<rparr> \<noteq> None"
  using ValidateGenesis_error_iff
      [of "\<lparr>Params = (), BufferedCheckpoint = None, LastNoACK = 0, AckCount = 7, Headers = []\<rparr>"
          noParams]
    ValidateGenesis_error_iff
      [of "\<lparr>Params = (), BufferedCheckpoint = None, LastNoACK = 0, AckCount = 2,
            Headers = [headAt 255 1]\<rparr>" noParams]
  by (simp add: noParams_def)

end
